theory Spec2Isabelle
  imports Main
begin

section \<open>Strings and path helpers used by the scan command\<close>

text \<open>
  A string is the list of the bytes of its UTF-8 encoding.  The operations of
  \<^verbatim>\<open>src/index.ts\<close> that look into a string look for the ASCII characters \<^verbatim>\<open>.\<close> and
  \<^verbatim>\<open>,\<close> only (\<^verbatim>\<open>startsWith('.')\<close>, \<^verbatim>\<open>split(',')\<close>, \<^verbatim>\<open>extname\<close>), and a byte of
  these values is that character wherever it stands in UTF-8 text, so they are defined
  here.  \<^verbatim>\<open>String.prototype.toLowerCase\<close> and \<^verbatim>\<open>String.prototype.trim\<close> follow the Unicode
  tables of the JavaScript runtime: they are not defined here but taken as functions of
  the runtime, which the definitions below receive as arguments.
\<close>

definition startsWith :: "string \<Rightarrow> string \<Rightarrow> bool" where
  "startsWith s p = (take (length p) s = p)"

text \<open>
  \<^verbatim>\<open>e.split(',')\<close>: the pieces between the commas, an empty piece included; the empty
  string splits into one empty piece.
\<close>

fun split_comma :: "string \<Rightarrow> string list" where
  "split_comma [] = [[]]"
| "split_comma (c # cs) =
     (if c = CHR '','' then [] # split_comma cs
      else (case split_comma cs of
              [] \<Rightarrow> [[c]]
            | w # ws \<Rightarrow> (c # w) # ws))"

text \<open>
  \<^verbatim>\<open>extname\<close> of Node's \<^verbatim>\<open>path\<close> module, on a directory entry name (a name returned
  by \<^verbatim>\<open>readdirSync\<close> holds no path separator): the text from the last dot on, and the
  empty string when the name has no dot, when its only dot is its first character, or
  when the name is \<^verbatim>\<open>..\<close>.
\<close>

fun lastIndexOf :: "char \<Rightarrow> string \<Rightarrow> nat option" where
  "lastIndexOf c [] = None"
| "lastIndexOf c (x # xs) =
     (case lastIndexOf c xs of
        Some i \<Rightarrow> Some (Suc i)
      | None \<Rightarrow> if x = c then Some 0 else None)"

definition extname :: "string \<Rightarrow> string" where
  "extname name =
     (case lastIndexOf CHR ''.'' name of
        None \<Rightarrow> []
      | Some i \<Rightarrow> if i = 0 \<or> name = ''..'' then [] else drop i name)"

section \<open>The file system seen by \<^verbatim>\<open>getFiles\<close>\<close>

text \<open>
  What \<^verbatim>\<open>getFiles\<close> can observe of a path is what \<^verbatim>\<open>statSync\<close> and
  \<^verbatim>\<open>readdirSync\<close> return there or that they throw.  A node is a regular file, some
  other kind of entry (socket, FIFO, device), a path whose \<^verbatim>\<open>statSync\<close> throws
  (a dangling symbolic link, a permission error, a path that does not exist), a directory
  whose \<^verbatim>\<open>readdirSync\<close> throws, or a directory with its entries in the order in which
  \<^verbatim>\<open>readdirSync\<close> lists them.  \<^verbatim>\<open>statSync\<close> follows symbolic links, so a link to a
  directory is that directory; the tree is finite, so a link that leads back to a
  directory above it is not part of this model.
\<close>

datatype fsnode =
    RegularFile
  | SpecialFile
  | StatError
  | UnreadableDir
  | Directory "(string \<times> fsnode) list"

datatype stats = Stats (isDirectory: bool) (isFile: bool)

fun statSync :: "fsnode \<Rightarrow> stats option" where
  "statSync RegularFile = Some (Stats False True)"
| "statSync SpecialFile = Some (Stats False False)"
| "statSync StatError = None"
| "statSync UnreadableDir = Some (Stats True False)"
| "statSync (Directory items) = Some (Stats True False)"

text \<open>
  \<^verbatim>\<open>getFiles(dir, extensions)\<close>, lines 15 to 36.  The node argument is what the file
  system holds at \<^verbatim>\<open>dir\<close>; \<^verbatim>\<open>join\<close> is \<^verbatim>\<open>path.join\<close> of the platform and
  \<open>lower\<close> is \<^verbatim>\<open>String.prototype.toLowerCase\<close> of the runtime.
  \<^verbatim>\<open>readdirSync\<close> throws on everything but a readable directory, and the \<^verbatim>\<open>catch\<close>
  then returns the empty \<^verbatim>\<open>files\<close>.  The \<^verbatim>\<open>try\<close> block encloses the whole
  \<^verbatim>\<open>for\<close> loop, so a \<^verbatim>\<open>statSync\<close> that throws leaves the loop: what was pushed
  before stays in \<^verbatim>\<open>files\<close>, the entries after it are never examined.
  \<^verbatim>\<open>getFiles_loop\<close> is the loop from one entry on and returns what it pushes.
\<close>

fun getFiles ::
  "(string \<Rightarrow> string \<Rightarrow> string) \<Rightarrow> (string \<Rightarrow> string) \<Rightarrow> string \<Rightarrow> string list \<Rightarrow> fsnode
     \<Rightarrow> string list"
and getFiles_loop ::
  "(string \<Rightarrow> string \<Rightarrow> string) \<Rightarrow> (string \<Rightarrow> string) \<Rightarrow> string \<Rightarrow> string list
     \<Rightarrow> (string \<times> fsnode) list \<Rightarrow> string list"
where
  "getFiles join lower dir extensions (Directory items) = getFiles_loop join lower dir extensions items"
| "getFiles join lower dir extensions RegularFile = []"
| "getFiles join lower dir extensions SpecialFile = []"
| "getFiles join lower dir extensions StatError = []"
| "getFiles join lower dir extensions UnreadableDir = []"
| "getFiles_loop join lower dir extensions [] = []"
| "getFiles_loop join lower dir extensions ((item, node) # rest) =
     (let fullPath = join dir item in
      case statSync node of
        None \<Rightarrow> []
      | Some stat \<Rightarrow>
          if isDirectory stat \<and> \<not> startsWith item ''.'' \<and> item \<noteq> ''node_modules''
          then getFiles join lower fullPath extensions node @ getFiles_loop join lower dir extensions rest
          else if isFile stat \<and> lower (extname item) \<in> set extensions
          then fullPath # getFiles_loop join lower dir extensions rest
          else getFiles_loop join lower dir extensions rest)"

section \<open>Analysis of one file\<close>

text \<open>
  A finding, and a truthy response body of the scan endpoint with the two fields
  \<^verbatim>\<open>displayResults\<close> reads.  A field that is absent (or \<^verbatim>\<open>null\<close>) is \<open>None\<close>.
  What \<^verbatim>\<open>analyzeFile\<close> returns is the parsed body, or \<^verbatim>\<open>null\<close> (\<open>None\<close>): its own
  failure value, which is also what a body \<^verbatim>\<open>null\<close> parses to.
\<close>

record vulnerability =
  line :: int
  severity :: string
  message :: string
  cwe :: "string option"

record scan_result =
  result_file :: "string option"
  vulnerabilities :: "vulnerability list option"

type_synonym outcome = "scan_result option"

text \<open>
  The options of the \<^verbatim>\<open>scan\<close> command as commander hands them over: an option that was
  not given is \<open>None\<close>.  JavaScript tests them for truthiness, and an empty string is
  falsy like a missing option.
\<close>

record options =
  "file" :: "string option"
  directory :: "string option"
  language :: "string option"
  extensions :: "string option"

fun truthy :: "string option \<Rightarrow> bool" where
  "truthy None = False"
| "truthy (Some s) = (s \<noteq> [])"

text \<open>
  The request body of line 48, and the response of \<^verbatim>\<open>fetch\<close>: \<^verbatim>\<open>json\<close> is what
  \<^verbatim>\<open>response.json()\<close> resolves to, or \<open>Inl\<close> the message of the error it rejects with
  on a malformed body.
\<close>

record scan_request =
  code :: string
  request_language :: "string option"

record response =
  ok :: bool
  statusText :: string
  json :: "string + outcome"

text \<open>
  The world outside the program: the environment variable, \<^verbatim>\<open>path.join\<close> of the
  platform, \<^verbatim>\<open>toLowerCase\<close> and \<^verbatim>\<open>trim\<close> of the runtime's strings, the file system (as \<^verbatim>\<open>getFiles\<close> sees the tree at a path, and as
  \<^verbatim>\<open>readFileSync\<close> reads a file or throws, \<open>Inl\<close> the error message), and the remote
  service: \<^verbatim>\<open>fetch\<close> rejects (\<open>Inl\<close> the message of the network error) or resolves to a
  response, as a function of the address and of the request body.
\<close>

record env =
  CODELENS_API_URL :: "string option"
  path_join :: "string \<Rightarrow> string \<Rightarrow> string"
  toLowerCase :: "string \<Rightarrow> string"
  trim :: "string \<Rightarrow> string"
  fs_at :: "string \<Rightarrow> fsnode"
  readFileSync :: "string \<Rightarrow> string + string"
  fetch :: "string \<Rightarrow> scan_request \<Rightarrow> string + response"

definition API_URL :: "env \<Rightarrow> string" where
  "API_URL e =
     (if truthy (CODELENS_API_URL e) then the (CODELENS_API_URL e)
      else ''http://localhost:3000'')"

text \<open>
  The call of \<^verbatim>\<open>fetch\<close> of lines 45 to 49; \<^verbatim>\<open>JSON.stringify\<close> leaves out a field that
  is \<^verbatim>\<open>undefined\<close>.
\<close>

definition scan_fetch :: "env \<Rightarrow> string \<Rightarrow> options \<Rightarrow> string + response" where
  "scan_fetch e text opts =
     fetch e (API_URL e @ ''/api/v1/security/scan'')
       \<lparr>code = text,
        request_language = (if truthy (language opts) then language opts else None)\<rparr>"

datatype spinner_event = SpinnerStart string | SpinnerSucceed string | SpinnerFail string

text \<open>
  \<^verbatim>\<open>analyzeFile(filePath, options)\<close>, lines 39 to 63: what the spinner shows and the
  value the promise resolves to.  Every statement that can throw stands inside the
  \<^verbatim>\<open>try\<close> block, and the \<^verbatim>\<open>catch\<close> reports the message and returns \<^verbatim>\<open>null\<close>.
\<close>

definition analyzeFile :: "env \<Rightarrow> string \<Rightarrow> options \<Rightarrow> spinner_event list \<times> outcome" where
  "analyzeFile e filePath opts =
     (let started = [SpinnerStart (''Analyzing '' @ filePath @ ''...'')];
          caught = (\<lambda>msg.
            (started @ [SpinnerFail (''Failed to analyze '' @ filePath @ '': '' @ msg)], None))
      in case readFileSync e filePath of
           Inl msg \<Rightarrow> caught msg
         | Inr text \<Rightarrow>
             (case scan_fetch e text opts of
                Inl msg \<Rightarrow> caught msg
              | Inr resp \<Rightarrow>
                  if \<not> ok resp then caught (''API error: '' @ statusText resp)
                  else (case json resp of
                          Inl msg \<Rightarrow> caught msg
                        | Inr result \<Rightarrow>
                            (started @ [SpinnerSucceed (''Analyzed '' @ filePath)], result))))"

section \<open>Waiting for all analyses\<close>

text \<open>
  \<^verbatim>\<open>Promise.all\<close> over promises that never reject, as \<^verbatim>\<open>analyzeFile\<close>'s: it keeps one
  slot per promise; when the promise at index \<open>i\<close> settles, its value is stored in slot
  \<open>i\<close>; it resolves to the slots once all of them are filled, and stays pending
  (\<open>None\<close>) otherwise.  \<open>order\<close> is the order in which the promises settle.
\<close>

fun settle_all :: "'a list \<Rightarrow> nat list \<Rightarrow> 'a option list \<Rightarrow> 'a option list" where
  "settle_all vals [] slots = slots"
| "settle_all vals (i # order) slots =
     settle_all vals order (if i < length vals then slots[i := Some (vals ! i)] else slots)"

definition Promise_all :: "nat list \<Rightarrow> 'a list \<Rightarrow> 'a list option" where
  "Promise_all order vals = those (settle_all vals order (replicate (length vals) None))"

text \<open>Every dispatched call settles, once, in some order.\<close>

definition all_settle :: "nat list \<Rightarrow> nat \<Rightarrow> bool" where
  "all_settle order n = (sort order = [0..<n])"

section \<open>Displaying the results\<close>

text \<open>
  The lines \<^verbatim>\<open>displayResults\<close> writes, without their colours and layout.  The line of
  one finding (line 87) is kept abstract: it stands for the finding and the colour chosen
  for its severity, not for the text that is printed.
\<close>

datatype console_line =
    Rule
  | Title
  | FileHeading "string option"
  | Finding string vulnerability
  | CweLine string
  | TotalLine nat
  | FixWarning
  | NoIssues

definition severity_color :: "string \<Rightarrow> string" where
  "severity_color s =
     (if s = ''critical'' then ''red''
      else if s = ''high'' then ''yellow''
      else if s = ''medium'' then ''yellow''
      else ''gray'')"

definition print_vuln :: "vulnerability \<Rightarrow> console_line list" where
  "print_vuln vuln =
     Finding (severity_color (severity vuln)) vuln #
     (if truthy (cwe vuln) then [CweLine (the (cwe vuln))] else [])"

text \<open>\<^verbatim>\<open>result.vulnerabilities || []\<close>, line 76.\<close>

definition vulns_of :: "scan_result \<Rightarrow> vulnerability list" where
  "vulns_of result = (case vulnerabilities result of None \<Rightarrow> [] | Some vs \<Rightarrow> vs)"

text \<open>
  The loop of lines 73 to 93 over the console output so far and \<^verbatim>\<open>totalVulns\<close>.
\<close>

fun displayResults_loop ::
  "outcome list \<Rightarrow> console_line list \<times> nat \<Rightarrow> console_line list \<times> nat" where
  "displayResults_loop [] st = st"
| "displayResults_loop (None # rest) st = displayResults_loop rest st"
| "displayResults_loop (Some result # rest) (out, totalVulns) =
     (let vulns = vulns_of result in
      displayResults_loop rest
        (if length vulns > 0
         then out @ FileHeading (result_file result) # concat (map print_vuln vulns)
         else out,
         totalVulns + length vulns))"

text \<open>
  \<^verbatim>\<open>displayResults(results)\<close>, lines 66 to 102: the console output, and the final value
  of \<^verbatim>\<open>totalVulns\<close>.
\<close>

record report =
  console :: "console_line list"
  total :: nat

definition displayResults :: "outcome list \<Rightarrow> report" where
  "displayResults results =
     (case displayResults_loop results ([Rule, Title, Rule], 0) of
        (out, totalVulns) \<Rightarrow>
          \<lparr>console = out @ [TotalLine totalVulns, if totalVulns > 0 then FixWarning else NoIssues],
           total = totalVulns\<rparr>)"

section \<open>The scan command\<close>

definition default_extensions :: "string list" where
  "default_extensions =
     [''.js'', ''.ts'', ''.jsx'', ''.tsx'', ''.py'', ''.go'', ''.java'', ''.rb'', ''.php'',
      ''.cs'', ''.c'', ''.cpp'', ''.rs'']"

text \<open>Lines 124 to 126; \<open>strip\<close> is \<^verbatim>\<open>String.prototype.trim\<close> of the runtime.\<close>

definition normalize_extension :: "(string \<Rightarrow> string) \<Rightarrow> string \<Rightarrow> string" where
  "normalize_extension strip e = (if startsWith (strip e) ''.'' then strip e else ''.'' @ strip e)"

definition scan_extensions :: "env \<Rightarrow> options \<Rightarrow> string list" where
  "scan_extensions e opts =
     (if truthy (extensions opts)
      then map (normalize_extension (trim e)) (split_comma (the (extensions opts)))
      else default_extensions)"

text \<open>Lines 131 to 137: the files to scan.\<close>

definition scan_files :: "env \<Rightarrow> options \<Rightarrow> string list" where
  "scan_files e opts =
     (if truthy (file opts) then [the (file opts)]
      else if truthy (directory opts)
      then getFiles (path_join e) (toLowerCase e) (the (directory opts)) (scan_extensions e opts)
             (fs_at e (the (directory opts)))
      else [])"

text \<open>Lines 141 to 143: one call of \<^verbatim>\<open>analyzeFile\<close> per file, awaited together.\<close>

definition analyze_all :: "env \<Rightarrow> nat list \<Rightarrow> options \<Rightarrow> string list \<Rightarrow> outcome list option" where
  "analyze_all e order opts files =
     Promise_all order (map (\<lambda>file. snd (analyzeFile e file opts)) files)"

text \<open>
  The action of the \<^verbatim>\<open>scan\<close> command, lines 118 to 152, for a settling order of the
  analyses.  It ends in \<^verbatim>\<open>process.exit(1)\<close> after the usage error, stays pending while
  an analysis has not settled, or runs to its end, after which the process exits with
  code 0.  Nothing in the \<^verbatim>\<open>try\<close> block throws in this model (\<^verbatim>\<open>getFiles\<close> and
  \<^verbatim>\<open>analyzeFile\<close> catch their own errors), so the \<^verbatim>\<open>catch\<close> of line 148 is not entered.
\<close>

datatype scan_run =
    UsageError string
  | Pending
  | Completed (scanned: "string list") (outcomes: "outcome list") (shown: report)

fun exit_code :: "scan_run \<Rightarrow> nat option" where
  "exit_code (UsageError msg) = Some 1"
| "exit_code Pending = None"
| "exit_code (Completed files results rep) = Some 0"

definition scan :: "env \<Rightarrow> nat list \<Rightarrow> options \<Rightarrow> scan_run" where
  "scan e order opts =
     (if \<not> truthy (file opts) \<and> \<not> truthy (directory opts)
      then UsageError ''Error: Please specify --file or --directory''
      else let files = scan_files e opts in
           case analyze_all e order opts files of
             None \<Rightarrow> Pending
           | Some results \<Rightarrow> Completed files results (displayResults results))"


section \<open>Reference notions for the properties\<close>

subsection \<open>Discovery\<close>

text \<open>
  The files that recursive descent reaches, in the words of the contract of file
  discovery: a regular file of a directory whose lower-cased extension is among the
  extensions, in the directory itself or in a directory below it that is reached through
  directories whose names neither begin with a dot nor are \<^verbatim>\<open>node_modules\<close>.
\<close>

inductive matching_file ::
  "(string \<Rightarrow> string \<Rightarrow> string) \<Rightarrow> (string \<Rightarrow> string) \<Rightarrow> string list \<Rightarrow> string \<Rightarrow> fsnode \<Rightarrow> string
     \<Rightarrow> bool"
  for join :: "string \<Rightarrow> string \<Rightarrow> string" and lower :: "string \<Rightarrow> string" and exts :: "string list"
where
  file_in_directory:
    "(item, RegularFile) \<in> set items \<Longrightarrow> lower (extname item) \<in> set exts \<Longrightarrow>
     matching_file join lower exts dir (Directory items) (join dir item)"
| file_below:
    "(item, Directory sub) \<in> set items \<Longrightarrow> \<not> startsWith item ''.'' \<Longrightarrow>
     item \<noteq> ''node_modules'' \<Longrightarrow>
     matching_file join lower exts (join dir item) (Directory sub) p \<Longrightarrow>
     matching_file join lower exts dir (Directory items) p"

text \<open>
  No entry that the traversal examines makes \<^verbatim>\<open>statSync\<close> throw: every entry of the
  directory, and of the directories the traversal descends into.
\<close>

fun no_stat_error :: "fsnode \<Rightarrow> bool"
and no_stat_error_items :: "(string \<times> fsnode) list \<Rightarrow> bool"
where
  "no_stat_error (Directory items) = no_stat_error_items items"
| "no_stat_error RegularFile = True"
| "no_stat_error SpecialFile = True"
| "no_stat_error StatError = True"
| "no_stat_error UnreadableDir = True"
| "no_stat_error_items [] = True"
| "no_stat_error_items ((item, node) # rest) =
     (statSync node \<noteq> None
      \<and> (if \<not> startsWith item ''.'' \<and> item \<noteq> ''node_modules'' then no_stat_error node else True)
      \<and> no_stat_error_items rest)"

subsection \<open>Aggregation\<close>

text \<open>
  What one outcome adds to the total, read off the outcome itself: nothing when it is the
  failure value or when the body has no list of vulnerabilities, and the length of the
  list otherwise.
\<close>

definition contribution :: "outcome \<Rightarrow> nat" where
  "contribution r =
     (case r of
        None \<Rightarrow> 0
      | Some result \<Rightarrow> (case vulnerabilities result of None \<Rightarrow> 0 | Some vs \<Rightarrow> length vs))"

subsection \<open>Analysis\<close>

text \<open>
  What a call of \<^verbatim>\<open>analyzeFile\<close> shows and returns when it fails for a cause, and when
  it succeeds with a parsed body.
\<close>

definition failure_report :: "string \<Rightarrow> string \<Rightarrow> spinner_event list \<times> outcome" where
  "failure_report filePath cause =
     ([SpinnerStart (''Analyzing '' @ filePath @ ''...''),
       SpinnerFail (''Failed to analyze '' @ filePath @ '': '' @ cause)],
      None)"

definition success_report :: "string \<Rightarrow> outcome \<Rightarrow> spinner_event list \<times> outcome" where
  "success_report filePath result =
     ([SpinnerStart (''Analyzing '' @ filePath @ ''...''),
       SpinnerSucceed (''Analyzed '' @ filePath)],
      result)"

subsection \<open>A concrete world for the examples\<close>

text \<open>
  For strings of ASCII characters, as all the strings of the examples are,
  \<^verbatim>\<open>toLowerCase\<close> changes the letters \<^verbatim>\<open>A\<close> to \<^verbatim>\<open>Z\<close> only and \<^verbatim>\<open>trim\<close> removes
  tabs, line feeds, vertical tabs, form feeds, carriage returns and spaces at the two
  ends.  These two functions stand for the runtime's in the examples, and nowhere else.
\<close>

definition is_upper :: "char \<Rightarrow> bool" where
  "is_upper c = (65 \<le> (of_char c :: nat) \<and> (of_char c :: nat) \<le> 90)"

definition lower_char :: "char \<Rightarrow> char" where
  "lower_char c = (if is_upper c then char_of ((of_char c :: nat) + 32) else c)"

definition ascii_toLowerCase :: "string \<Rightarrow> string" where
  "ascii_toLowerCase s = map lower_char s"

definition is_space :: "char \<Rightarrow> bool" where
  "is_space c = ((9 \<le> (of_char c :: nat) \<and> (of_char c :: nat) \<le> 13) \<or> (of_char c :: nat) = 32)"

definition ascii_trim :: "string \<Rightarrow> string" where
  "ascii_trim s = rev (dropWhile is_space (rev (dropWhile is_space s)))"

text \<open>
  \<^verbatim>\<open>path.join\<close> on a POSIX platform, for a directory path in normal form and an entry
  name; a project tree; two trees that differ in one entry, the dangling link
  \<^verbatim>\<open>alias\<close> in the one and the directory \<^verbatim>\<open>archive\<close>, which cannot be listed, in the
  other; one more tree with a dangling link; in all of them the entries of a directory
  stand in the order of their names; a service that answers by the text
  it is sent; and the files that can be read.
\<close>

definition posix_join :: "string \<Rightarrow> string \<Rightarrow> string" where
  "posix_join dir item = dir @ ''/'' @ item"

definition example_tree :: fsnode where
  "example_tree =
     Directory
       [(''.git'', Directory [(''hook.ts'', RegularFile), (''index.lock'', StatError)]),
        (''a.ts'', RegularFile),
        (''b.ts'', RegularFile),
        (''c.txt'', RegularFile),
        (''lib'', Directory [(''Util.PY'', RegularFile), (''pipe'', SpecialFile)]),
        (''locked'', UnreadableDir),
        (''node_modules'', Directory [(''dep.ts'', RegularFile)])]"

definition dangling_tree :: fsnode where
  "dangling_tree =
     Directory
       [(''a.ts'', RegularFile),
        (''alias'', StatError),
        (''b.ts'', RegularFile),
        (''lib'', Directory [(''c.ts'', RegularFile)])]"

definition name_order_tree :: fsnode where
  "name_order_tree =
     Directory
       [(''a.ts'', RegularFile),
        (''broken'', StatError),
        (''lib'', Directory [(''c.ts'', RegularFile)]),
        (''z.ts'', RegularFile)]"

definition locked_tree :: fsnode where
  "locked_tree =
     Directory
       [(''a.ts'', RegularFile),
        (''archive'', UnreadableDir),
        (''b.ts'', RegularFile),
        (''lib'', Directory [(''c.ts'', RegularFile)])]"

definition finding :: vulnerability where
  "finding = \<lparr>line = 3, severity = ''high'', message = ''eval of user input'', cwe = Some ''CWE-95''\<rparr>"

definition example_service :: "string \<Rightarrow> scan_request \<Rightarrow> string + response" where
  "example_service url request =
     (if code request = ''timeout'' then Inl ''fetch failed''
      else if code request = ''crash''
      then Inr \<lparr>ok = False, statusText = ''Internal Server Error'', json = Inl ''Unexpected end of JSON input''\<rparr>
      else if code request = ''garbled''
      then Inr \<lparr>ok = True, statusText = ''OK'', json = Inl ''Unexpected token < in JSON at position 0''\<rparr>
      else if code request = ''bare''
      then Inr \<lparr>ok = True, statusText = ''OK'',
                json = Inr (Some \<lparr>result_file = None, vulnerabilities = None\<rparr>)\<rparr>
      else if code request = ''eval(x)''
      then Inr \<lparr>ok = True, statusText = ''OK'',
                json = Inr (Some \<lparr>result_file = None, vulnerabilities = Some [finding]\<rparr>)\<rparr>
      else Inr \<lparr>ok = True, statusText = ''OK'',
                json = Inr (Some \<lparr>result_file = None, vulnerabilities = Some []\<rparr>)\<rparr>)"

definition example_files :: "string \<Rightarrow> string + string" where
  "example_files p =
     (if p = ''proj/a.ts'' then Inr ''let a = 1''
      else if p = ''proj/b.ts'' then Inr ''eval(x)''
      else if p = ''proj/lib/Util.PY'' then Inr ''import os''
      else if p = ''net.ts'' then Inr ''timeout''
      else if p = ''err.ts'' then Inr ''crash''
      else if p = ''bad.ts'' then Inr ''garbled''
      else if p = ''bare.ts'' then Inr ''bare''
      else Inl (''ENOENT: no such file or directory, open '' @ p))"

definition example_env :: env where
  "example_env =
     \<lparr>CODELENS_API_URL = None,
      path_join = posix_join,
      toLowerCase = ascii_toLowerCase,
      trim = ascii_trim,
      fs_at = (\<lambda>dir. if dir = ''proj'' then example_tree else StatError),
      readFileSync = example_files,
      fetch = example_service\<rparr>"

definition no_options :: options where
  "no_options = \<lparr>file = None, directory = None, language = None, extensions = None\<rparr>"


section \<open>Aggregation of the outcomes\<close>

lemma displayResults_loop_total:
  "snd (displayResults_loop results (out, n)) = n + sum_list (map contribution results)"
proof (induction results "(out, n)" arbitrary: out n rule: displayResults_loop.induct)
  case 1
  show ?case by simp
next
  case (2 rest)
  then show ?case by (simp add: contribution_def)
next
  case (3 result rest out totalVulns)
  then show ?case
    by (cases "vulnerabilities result") (simp_all add: contribution_def vulns_of_def Let_def)
qed

lemma total_displayResults:
  "total (displayResults results) = sum_list (map contribution results)"
  using displayResults_loop_total [of results "[Rule, Title, Rule]" 0]
  by (cases "displayResults_loop results ([Rule, Title, Rule], 0)") (simp add: displayResults_def)

lemma console_displayResults:
  "\<exists>body. console (displayResults results) =
     body @ [TotalLine (total (displayResults results)),
             if total (displayResults results) > 0 then FixWarning else NoIssues]"
  by (cases "displayResults_loop results ([Rule, Title, Rule], 0)") (simp add: displayResults_def)

lemma total_line_displayResults:
  "last (butlast (console (displayResults results))) = TotalLine (total (displayResults results))"
  using console_displayResults [of results] by (auto simp: butlast_append)

lemma verdict_displayResults:
  "last (console (displayResults results)) =
     (if total (displayResults results) > 0 then FixWarning else NoIssues)"
  using console_displayResults [of results] by auto

lemma sum_successful:
  "sum_list (map contribution results) =
   (\<Sum>r \<leftarrow> filter (\<lambda>r. r \<noteq> None) results.
      case vulnerabilities (the r) of None \<Rightarrow> 0 | Some vs \<Rightarrow> length vs)"
  by (induction results) (auto simp: contribution_def)

text \<open>
  Claim C1.  For every sequence of outcomes, the total that \<^verbatim>\<open>displayResults\<close> computes
  and prints is the sum, over the successful (non-null) outcomes, of the length of the
  list in the field \<^verbatim>\<open>vulnerabilities\<close> of the outcome (0 when the field is absent), and
  a failed outcome adds exactly 0: putting the failure value anywhere into the sequence
  leaves the total as it is.
\<close>

theorem total_is_sum_over_successful:
  "total (displayResults results) =
     (\<Sum>r \<leftarrow> filter (\<lambda>r. r \<noteq> None) results.
        case vulnerabilities (the r) of None \<Rightarrow> 0 | Some vs \<Rightarrow> length vs)
   \<and> total (displayResults (before @ None # after)) = total (displayResults (before @ after))
   \<and> last (butlast (console (displayResults results))) = TotalLine (total (displayResults results))"
proof (intro conjI)
  show "total (displayResults results) =
     (\<Sum>r \<leftarrow> filter (\<lambda>r. r \<noteq> None) results.
        case vulnerabilities (the r) of None \<Rightarrow> 0 | Some vs \<Rightarrow> length vs)"
    by (simp only: total_displayResults sum_successful)
  show "total (displayResults (before @ None # after)) = total (displayResults (before @ after))"
    by (simp add: total_displayResults contribution_def)
  show "last (butlast (console (displayResults results))) = TotalLine (total (displayResults results))"
    by (rule total_line_displayResults)
qed

section \<open>File discovery\<close>

lemma matching_file_not_directory:
  "matching_file join lower exts dir node p \<Longrightarrow> \<exists>items. node = Directory items"
  by (cases rule: matching_file.cases) auto

lemma matching_file_Nil: "\<not> matching_file join lower exts dir (Directory []) p"
  by (auto elim: matching_file.cases)

lemma matching_file_rest:
  assumes "matching_file join lower exts dir (Directory rest) p"
  shows "matching_file join lower exts dir (Directory (x # rest)) p"
  using assms
proof (cases rule: matching_file.cases)
  case (file_in_directory item)
  then show ?thesis by (auto intro: matching_file.file_in_directory)
next
  case (file_below item sub)
  then show ?thesis by (auto intro: matching_file.file_below)
qed

lemma matching_file_Cons:
  "matching_file join lower exts dir (Directory ((item, node) # rest)) p \<longleftrightarrow>
     (node = RegularFile \<and> lower (extname item) \<in> set exts \<and> p = join dir item)
   \<or> (\<not> startsWith item ''.'' \<and> item \<noteq> ''node_modules''
        \<and> matching_file join lower exts (join dir item) node p)
   \<or> matching_file join lower exts dir (Directory rest) p"
  (is "?lhs \<longleftrightarrow> ?rhs")
proof
  assume ?lhs
  then show ?rhs
  proof (cases rule: matching_file.cases)
    case (file_in_directory item')
    then show ?thesis by (auto intro: matching_file.file_in_directory)
  next
    case (file_below item' sub)
    then show ?thesis by (auto intro: matching_file.file_below)
  qed
next
  assume r: ?rhs
  show ?lhs
  proof -
    consider (a) "node = RegularFile" "lower (extname item) \<in> set exts" "p = join dir item"
      | (b) "\<not> startsWith item ''.''" "item \<noteq> ''node_modules''"
            "matching_file join lower exts (join dir item) node p"
      | (c) "matching_file join lower exts dir (Directory rest) p"
      using r by blast
    then show ?thesis
    proof cases
      case a
      then show ?thesis by (auto intro: matching_file.file_in_directory)
    next
      case b
      from b(3) obtain sub where "node = Directory sub"
        using matching_file_not_directory by blast
      with b show ?thesis by (auto intro: matching_file.file_below)
    next
      case c
      then show ?thesis by (rule matching_file_rest)
    qed
  qed
qed


lemma getFiles_matching:
  "(no_stat_error node \<longrightarrow>
      set (getFiles join lower dir exts node) = {p. matching_file join lower exts dir node p})"
  "(no_stat_error_items items \<longrightarrow>
      set (getFiles_loop join lower dir exts items) = {p. matching_file join lower exts dir (Directory items) p})"
proof (induction join lower dir exts node and join lower dir exts items rule: getFiles_getFiles_loop.induct)
  case (1 join lower dir extensions items)
  then show ?case by simp
next
  case (2 join lower dir extensions)
  then show ?case by (auto dest: matching_file_not_directory)
next
  case (3 join lower dir extensions)
  then show ?case by (auto dest: matching_file_not_directory)
next
  case (4 join lower dir extensions)
  then show ?case by (auto dest: matching_file_not_directory)
next
  case (5 join lower dir extensions)
  then show ?case by (auto dest: matching_file_not_directory)
next
  case (6 join lower dir extensions)
  then show ?case by (simp add: matching_file_Nil)
next
  case (7 join lower dir extensions item node rest)
  show ?case
  proof
    assume ok: "no_stat_error_items ((item, node) # rest)"
    then obtain stat where st: "statSync node = Some stat" by auto
    from ok have okrest: "no_stat_error_items rest" by simp
    let ?descend = "isDirectory stat \<and> \<not> startsWith item ''.'' \<and> item \<noteq> ''node_modules''"
    let ?push = "isFile stat \<and> lower (extname item) \<in> set extensions"
    have split: "{p. matching_file join lower extensions dir (Directory ((item, node) # rest)) p} =
        {p. node = RegularFile \<and> lower (extname item) \<in> set extensions \<and> p = join dir item}
        \<union> {p. \<not> startsWith item ''.'' \<and> item \<noteq> ''node_modules''
                \<and> matching_file join lower extensions (join dir item) node p}
        \<union> {p. matching_file join lower extensions dir (Directory rest) p}"
      by (rule set_eqI) (simp add: matching_file_Cons, blast)
    have regular: "isFile stat \<longleftrightarrow> node = RegularFile"
      using st by (cases node) auto
    have nodir: "\<not> isDirectory stat \<Longrightarrow> \<not> matching_file join lower extensions (join dir item) node p" for p
      using st by (cases node) (auto dest: matching_file_not_directory)
    have dir_nofile: "isDirectory stat \<Longrightarrow> node \<noteq> RegularFile"
      using st by (cases node) auto
    show "set (getFiles_loop join lower dir extensions ((item, node) # rest)) =
          {p. matching_file join lower extensions dir (Directory ((item, node) # rest)) p}"
    proof (cases ?descend)
      case True
      with ok have "no_stat_error node" by simp
      with 7(1)[OF refl st True] 7(2)[OF refl st True] okrest
      have ih: "set (getFiles join lower (join dir item) extensions node) =
                  {p. matching_file join lower extensions (join dir item) node p}"
               "set (getFiles_loop join lower dir extensions rest) =
                  {p. matching_file join lower extensions dir (Directory rest) p}"
        by simp_all
      have "set (getFiles_loop join lower dir extensions ((item, node) # rest)) =
            set (getFiles join lower (join dir item) extensions node) \<union> set (getFiles_loop join lower dir extensions rest)"
        by (simp only: getFiles.simps getFiles_loop.simps Let_def st option.case if_P [OF True] set_append)
      also have "\<dots> = {p. matching_file join lower extensions dir (Directory ((item, node) # rest)) p}"
        unfolding split ih using True dir_nofile by auto
      finally show ?thesis .
    next
      case False
      note notdir = False
      have nomatch: "\<not> (\<not> startsWith item ''.'' \<and> item \<noteq> ''node_modules''
                \<and> matching_file join lower extensions (join dir item) node p)" for p
        using notdir nodir by blast
      show ?thesis
      proof (cases ?push)
        case True
        with 7(3)[OF refl st notdir True] okrest
        have ih: "set (getFiles_loop join lower dir extensions rest) =
                  {p. matching_file join lower extensions dir (Directory rest) p}"
          by simp
        have "set (getFiles_loop join lower dir extensions ((item, node) # rest)) =
              insert (join dir item) (set (getFiles_loop join lower dir extensions rest))"
          by (simp only: getFiles.simps getFiles_loop.simps Let_def st option.case if_not_P [OF notdir] if_P [OF True] list.set)
        also have "\<dots> = {p. matching_file join lower extensions dir (Directory ((item, node) # rest)) p}"
          unfolding split ih using True regular nomatch by auto
        finally show ?thesis .
      next
        case False
        with 7(4)[OF refl st notdir False] okrest
        have ih: "set (getFiles_loop join lower dir extensions rest) =
                  {p. matching_file join lower extensions dir (Directory rest) p}"
          by simp
        have "set (getFiles_loop join lower dir extensions ((item, node) # rest)) =
              set (getFiles_loop join lower dir extensions rest)"
          by (simp only: getFiles.simps getFiles_loop.simps Let_def st option.case if_not_P [OF notdir] if_not_P [OF False])
        also have "\<dots> = {p. matching_file join lower extensions dir (Directory ((item, node) # rest)) p}"
          unfolding split ih using False regular nomatch by auto
        finally show ?thesis .
      qed
    qed
  qed
qed


text \<open>
  On a tree in which no \<^verbatim>\<open>statSync\<close> of the traversal throws, \<^verbatim>\<open>getFiles\<close> returns
  exactly the regular files reachable by recursive descent whose lower-cased extension is
  in the list, for every list of extensions.
\<close>

lemma getFiles_matching_files_if_no_stat_error:
  "no_stat_error node \<Longrightarrow>
     set (getFiles join lower dir exts node) = {p. matching_file join lower exts dir node p}"
  using getFiles_matching(1) [of node join lower dir exts] by simp

lemma matching_file_in_name_order:
  "matching_file posix_join ascii_toLowerCase [''.ts''] ''proj'' name_order_tree ''proj/lib/c.ts''
   \<and> matching_file posix_join ascii_toLowerCase [''.ts''] ''proj'' name_order_tree ''proj/z.ts''"
proof
  have ts: "ascii_toLowerCase (extname ''c.ts'') \<in> set [''.ts'']"
           "ascii_toLowerCase (extname ''z.ts'') \<in> set [''.ts'']"
    by code_simp+
  have dot: "\<not> startsWith ''lib'' ''.''"
    by (simp add: startsWith_def)
  have c: "(''c.ts'', RegularFile) \<in> set [(''c.ts'', RegularFile)]"
    by simp
  have lib: "(''lib'', Directory [(''c.ts'', RegularFile)]) \<in>
      set [(''a.ts'', RegularFile), (''broken'', StatError),
           (''lib'', Directory [(''c.ts'', RegularFile)]), (''z.ts'', RegularFile)]"
    by simp
  have z: "(''z.ts'', RegularFile) \<in>
      set [(''a.ts'', RegularFile), (''broken'', StatError),
           (''lib'', Directory [(''c.ts'', RegularFile)]), (''z.ts'', RegularFile)]"
    by simp
  have nm: "''lib'' \<noteq> ''node_modules''"
    by simp
  have "matching_file posix_join ascii_toLowerCase [''.ts''] ''proj'' name_order_tree
          (posix_join (posix_join ''proj'' ''lib'') ''c.ts'')"
    unfolding name_order_tree_def
    using file_below [OF lib dot nm
        file_in_directory [where lower = ascii_toLowerCase and item = "''c.ts''"
          and exts = "[''.ts'']" and join = posix_join and dir = "posix_join ''proj'' ''lib''",
          OF c ts(1)]] .
  then show "matching_file posix_join ascii_toLowerCase [''.ts''] ''proj'' name_order_tree ''proj/lib/c.ts''"
    by (simp add: posix_join_def)
  have "matching_file posix_join ascii_toLowerCase [''.ts''] ''proj'' name_order_tree
          (posix_join ''proj'' ''z.ts'')"
    unfolding name_order_tree_def
    using file_in_directory [where lower = ascii_toLowerCase and item = "''z.ts''"
        and exts = "[''.ts'']" and join = posix_join and dir = "''proj''", OF z ts(2)] .
  then show "matching_file posix_join ascii_toLowerCase [''.ts''] ''proj'' name_order_tree ''proj/z.ts''"
    by (simp add: posix_join_def)
qed

text \<open>
  Claim C4.  For every directory tree and every list of extensions, file discovery is to
  return exactly the files reachable by recursive descent whose lower-cased extension is
  in the list, the descent entering no directory whose name begins with a dot and no
  directory named \<^verbatim>\<open>node_modules\<close>.  \<^verbatim>\<open>getFiles\<close> does not on a tree that holds an
  entry on which \<^verbatim>\<open>statSync\<close> throws: of a directory that lists \<^verbatim>\<open>a.ts\<close>, a dangling
  link \<^verbatim>\<open>broken\<close>, the directory \<^verbatim>\<open>lib\<close> with \<^verbatim>\<open>c.ts\<close>, and \<^verbatim>\<open>z.ts\<close>, in the order
  of their names, \<^verbatim>\<open>lib/c.ts\<close> and \<^verbatim>\<open>z.ts\<close> are reachable and have the extension, and
  only \<^verbatim>\<open>a.ts\<close> is returned.
\<close>

theorem getFiles_misses_reachable_files:
  "getFiles posix_join ascii_toLowerCase ''proj'' [''.ts''] name_order_tree = [''proj/a.ts'']
   \<and> matching_file posix_join ascii_toLowerCase [''.ts''] ''proj'' name_order_tree ''proj/lib/c.ts''
   \<and> matching_file posix_join ascii_toLowerCase [''.ts''] ''proj'' name_order_tree ''proj/z.ts''
   \<and> set (getFiles posix_join ascii_toLowerCase ''proj'' [''.ts''] name_order_tree) \<noteq>
       {p. matching_file posix_join ascii_toLowerCase [''.ts''] ''proj'' name_order_tree p}"
proof -
  have run: "getFiles posix_join ascii_toLowerCase ''proj'' [''.ts''] name_order_tree = [''proj/a.ts'']"
    by code_simp
  note reach = matching_file_in_name_order
  have "''proj/z.ts'' \<notin> set (getFiles posix_join ascii_toLowerCase ''proj'' [''.ts''] name_order_tree)"
    unfolding run by simp
  with reach have "set (getFiles posix_join ascii_toLowerCase ''proj'' [''.ts''] name_order_tree) \<noteq>
       {p. matching_file posix_join ascii_toLowerCase [''.ts''] ''proj'' name_order_tree p}"
    by blast
  with run reach show ?thesis by blast
qed

text \<open>
  Claim C6.  A symbolic-link or permission error raised while one path is examined is
  to skip that path only, the traversal going on with the remaining entries of the same
  directory.  \<^verbatim>\<open>getFiles\<close> does so when a directory cannot be listed: the error is
  caught in the recursive call, and of a directory holding \<^verbatim>\<open>a.ts\<close>, the directory
  \<^verbatim>\<open>archive\<close>, \<^verbatim>\<open>b.ts\<close> and \<^verbatim>\<open>lib/c.ts\<close> all three files are found.  It does not
  when \<^verbatim>\<open>statSync\<close> throws on an entry: the \<^verbatim>\<open>catch\<close> around the whole loop ends
  the listing of the directory.  With the dangling link \<^verbatim>\<open>alias\<close> in the place of
  \<^verbatim>\<open>archive\<close> only \<^verbatim>\<open>a.ts\<close> is found, and in general the loop pushes nothing from
  such an entry on.
\<close>

theorem stat_error_drops_later_siblings:
  "getFiles posix_join ascii_toLowerCase ''proj'' [''.ts''] dangling_tree = [''proj/a.ts'']
   \<and> getFiles posix_join ascii_toLowerCase ''proj'' [''.ts''] locked_tree =
       [''proj/a.ts'', ''proj/b.ts'', ''proj/lib/c.ts'']
   \<and> getFiles_loop join lower dir exts ((item, StatError) # rest) = []"
proof (intro conjI)
  show "getFiles posix_join ascii_toLowerCase ''proj'' [''.ts''] dangling_tree = [''proj/a.ts'']"
    by code_simp
  show "getFiles posix_join ascii_toLowerCase ''proj'' [''.ts''] locked_tree =
       [''proj/a.ts'', ''proj/b.ts'', ''proj/lib/c.ts'']"
    by code_simp
  show "getFiles_loop join lower dir exts ((item, StatError) # rest) = []"
    by simp
qed


section \<open>Analysis of one file and of all files\<close>

lemma length_settle_all: "length (settle_all vals order slots) = length slots"
  by (induction order arbitrary: slots) auto

lemma nth_settle_all:
  "j < length vals \<Longrightarrow> length slots = length vals \<Longrightarrow>
   settle_all vals order slots ! j = (if j \<in> set order then Some (vals ! j) else slots ! j)"
proof (induction order arbitrary: slots)
  case Nil
  then show ?case by simp
next
  case (Cons i order)
  then show ?case by (auto simp: nth_list_update)
qed

lemma those_map_Some: "those (map Some xs) = Some xs"
  by (induction xs) auto

lemma all_settle_set: "all_settle order n \<Longrightarrow> set order = {0..<n}"
  unfolding all_settle_def by (metis set_sort set_upt)

lemma Promise_all_settled:
  assumes "all_settle order (length vals)"
  shows "Promise_all order vals = Some vals"
proof -
  have "settle_all vals order (replicate (length vals) None) = map Some vals"
    by (rule nth_equalityI)
       (simp_all add: length_settle_all nth_settle_all all_settle_set [OF assms])
  then show ?thesis by (simp add: Promise_all_def those_map_Some)
qed

lemma analyze_all_settled:
  "all_settle order (length files) \<Longrightarrow>
   analyze_all e order opts files = Some (map (\<lambda>file. snd (analyzeFile e file opts)) files)"
  unfolding analyze_all_def by (rule Promise_all_settled) simp

lemma analyzeFile_cases:
  "analyzeFile e filePath opts =
     (case readFileSync e filePath of
        Inl msg \<Rightarrow> failure_report filePath msg
      | Inr text \<Rightarrow>
          (case scan_fetch e text opts of
             Inl msg \<Rightarrow> failure_report filePath msg
           | Inr resp \<Rightarrow>
               if \<not> ok resp then failure_report filePath (''API error: '' @ statusText resp)
               else (case json resp of
                       Inl msg \<Rightarrow> failure_report filePath msg
                     | Inr result \<Rightarrow> success_report filePath result)))"
  by (simp add: analyzeFile_def failure_report_def success_report_def Let_def
           split: sum.splits)

lemma displayResults_loop_append:
  "displayResults_loop (xs @ ys) st = displayResults_loop ys (displayResults_loop xs st)"
  by (induction xs st rule: displayResults_loop.induct) (simp_all add: Let_def)

lemma displayResults_skip:
  assumes "contribution r = 0"
  shows "displayResults (before @ r # after) = displayResults (before @ after)"
proof -
  have "displayResults_loop [r] st = st" for st
    using assms
    by (cases r; cases st) (auto simp: contribution_def vulns_of_def Let_def split: option.splits)
  then have "displayResults_loop (before @ [r] @ after) st = displayResults_loop (before @ after) st" for st
    by (simp only: displayResults_loop_append)
  then show ?thesis by (simp add: displayResults_def)
qed

lemma scan_fetch_fs_at: "scan_fetch (e\<lparr>fs_at := other\<rparr>) text opts = scan_fetch e text opts"
  by (simp add: scan_fetch_def API_URL_def)

lemma analyzeFile_fs_at: "analyzeFile (e\<lparr>fs_at := other\<rparr>) filePath opts = analyzeFile e filePath opts"
  by (simp add: analyzeFile_cases scan_fetch_fs_at split: sum.splits)


text \<open>
  Claim C2.  For every list of files, once every dispatched analysis has settled, in
  whatever order, the outcomes are as many as the files and the outcome at each position
  is that of the file at this position; an analysis that fails leaves \<^verbatim>\<open>null\<close> at its
  own position and the outcomes before and after it as they are.
\<close>

theorem analyze_all_positional:
  "all_settle order (length files) \<Longrightarrow>
   (\<exists>results.
      analyze_all e order opts files = Some results
    \<and> length results = length files
    \<and> (\<forall>i < length files. results ! i = snd (analyzeFile e (files ! i) opts))
    \<and> (\<forall>before failing after.
          files = before @ failing # after \<and> snd (analyzeFile e failing opts) = None \<longrightarrow>
          results = map (\<lambda>file. snd (analyzeFile e file opts)) before
                    @ None # map (\<lambda>file. snd (analyzeFile e file opts)) after))"
  using analyze_all_settled [of order files e opts] by auto

theorem analyze_all_positional_witness:
  "all_settle [2, 0, 1] (length [''proj/a.ts'', ''missing.ts'', ''proj/b.ts''])
   \<and> analyze_all example_env [2, 0, 1] no_options [''proj/a.ts'', ''missing.ts'', ''proj/b.ts''] =
       Some [Some \<lparr>result_file = None, vulnerabilities = Some []\<rparr>,
             None,
             Some \<lparr>result_file = None, vulnerabilities = Some [finding]\<rparr>]"
proof -
  let ?files = "[''proj/a.ts'', ''missing.ts'', ''proj/b.ts'']"
  have h: "all_settle [2, 0, 1] (length ?files)"
    by code_simp
  have a: "snd (analyzeFile example_env ''proj/a.ts'' no_options) =
             Some \<lparr>result_file = None, vulnerabilities = Some []\<rparr>"
    by code_simp
  have m: "snd (analyzeFile example_env ''missing.ts'' no_options) = None"
    by code_simp
  have b: "snd (analyzeFile example_env ''proj/b.ts'' no_options) =
             Some \<lparr>result_file = None, vulnerabilities = Some [finding]\<rparr>"
    by code_simp
  from analyze_all_positional [OF h, of example_env no_options]
  obtain results where r: "analyze_all example_env [2, 0, 1] no_options ?files = Some results"
    and "results = map (\<lambda>file. snd (analyzeFile example_env file no_options)) [''proj/a.ts'']
                    @ None # map (\<lambda>file. snd (analyzeFile example_env file no_options)) [''proj/b.ts'']"
    using m by (metis append_Cons append_Nil)
  then show ?thesis using h a b by simp
qed


text \<open>
  Claim C3 (as amended).  On every failure mode (the file cannot be read, the request
  fails, the status is not a success, the body is malformed) \<^verbatim>\<open>analyzeFile\<close> returns
  normally: it shows a failure message made of the file path and of the cause, and the
  value it returns is \<^verbatim>\<open>null\<close>; the only other behaviour is the success report.
\<close>

theorem analyzeFile_failure_modes:
  "(readFileSync e filePath = Inl cause \<longrightarrow>
      analyzeFile e filePath opts = failure_report filePath cause)
   \<and> (readFileSync e filePath = Inr text \<and> scan_fetch e text opts = Inl cause \<longrightarrow>
      analyzeFile e filePath opts = failure_report filePath cause)
   \<and> (readFileSync e filePath = Inr text \<and> scan_fetch e text opts = Inr resp \<and> \<not> ok resp \<longrightarrow>
      analyzeFile e filePath opts = failure_report filePath (''API error: '' @ statusText resp))
   \<and> (readFileSync e filePath = Inr text \<and> scan_fetch e text opts = Inr resp \<and> ok resp
        \<and> json resp = Inl cause \<longrightarrow>
      analyzeFile e filePath opts = failure_report filePath cause)
   \<and> ((\<exists>msg. analyzeFile e filePath opts = failure_report filePath msg)
        \<or> (\<exists>result. analyzeFile e filePath opts = success_report filePath result))
   \<and> snd (failure_report filePath cause) = None"
proof (intro conjI impI)
  show "analyzeFile e filePath opts = failure_report filePath cause"
    if "readFileSync e filePath = Inl cause"
    using that by (simp add: analyzeFile_cases)
  show "analyzeFile e filePath opts = failure_report filePath cause"
    if "readFileSync e filePath = Inr text \<and> scan_fetch e text opts = Inl cause"
    using that by (simp add: analyzeFile_cases)
  show "analyzeFile e filePath opts = failure_report filePath (''API error: '' @ statusText resp)"
    if "readFileSync e filePath = Inr text \<and> scan_fetch e text opts = Inr resp \<and> \<not> ok resp"
    using that by (simp add: analyzeFile_cases)
  show "analyzeFile e filePath opts = failure_report filePath cause"
    if "readFileSync e filePath = Inr text \<and> scan_fetch e text opts = Inr resp \<and> ok resp
        \<and> json resp = Inl cause"
    using that by (simp add: analyzeFile_cases)
  show "(\<exists>msg. analyzeFile e filePath opts = failure_report filePath msg)
        \<or> (\<exists>result. analyzeFile e filePath opts = success_report filePath result)"
    by (auto simp: analyzeFile_cases split: sum.splits)
  show "snd (failure_report filePath cause) = None"
    by (simp add: failure_report_def)
qed

theorem analyzeFile_failure_modes_witness:
  "analyzeFile example_env ''missing.ts'' no_options =
     failure_report ''missing.ts'' ''ENOENT: no such file or directory, open missing.ts''
   \<and> analyzeFile example_env ''net.ts'' no_options = failure_report ''net.ts'' ''fetch failed''
   \<and> analyzeFile example_env ''err.ts'' no_options =
       failure_report ''err.ts'' ''API error: Internal Server Error''
   \<and> analyzeFile example_env ''bad.ts'' no_options =
       failure_report ''bad.ts'' ''Unexpected token < in JSON at position 0''"
proof -
  have r1: "readFileSync example_env ''missing.ts'' =
              Inl ''ENOENT: no such file or directory, open missing.ts''"
    by code_simp
  have r2: "readFileSync example_env ''net.ts'' = Inr ''timeout''"
           "scan_fetch example_env ''timeout'' no_options = Inl ''fetch failed''"
    by code_simp+
  let ?r500 = "\<lparr>ok = False, statusText = ''Internal Server Error'',
                 json = Inl ''Unexpected end of JSON input''\<rparr>"
  have r3: "readFileSync example_env ''err.ts'' = Inr ''crash''"
           "scan_fetch example_env ''crash'' no_options = Inr ?r500"
    by code_simp+
  let ?rbad = "\<lparr>ok = True, statusText = ''OK'',
                 json = Inl ''Unexpected token < in JSON at position 0''\<rparr>"
  have r4: "readFileSync example_env ''bad.ts'' = Inr ''garbled''"
           "scan_fetch example_env ''garbled'' no_options = Inr ?rbad"
    by code_simp+
  from analyzeFile_failure_modes [of example_env "''missing.ts''" _ no_options] r1
  have 1: "analyzeFile example_env ''missing.ts'' no_options =
     failure_report ''missing.ts'' ''ENOENT: no such file or directory, open missing.ts''"
    by blast
  from analyzeFile_failure_modes [of example_env "''net.ts''" "''fetch failed''" no_options "''timeout''"] r2
  have 2: "analyzeFile example_env ''net.ts'' no_options = failure_report ''net.ts'' ''fetch failed''"
    by blast
  from analyzeFile_failure_modes [of example_env "''err.ts''" _ no_options "''crash''" ?r500] r3
  have 3: "analyzeFile example_env ''err.ts'' no_options =
       failure_report ''err.ts'' ''API error: Internal Server Error''"
    by simp
  from analyzeFile_failure_modes [of example_env "''bad.ts''" "''Unexpected token < in JSON at position 0''" no_options "''garbled''" ?rbad] r4
  have 4: "analyzeFile example_env ''bad.ts'' no_options =
       failure_report ''bad.ts'' ''Unexpected token < in JSON at position 0''"
    by simp
  from 1 2 3 4 show ?thesis by simp
qed


text \<open>
  The value returned on a failure carries neither the path nor the cause: two failures, of
  different files and for different causes, return the same value, and differ in what the
  spinner shows only.
\<close>

theorem analyzeFile_failure_value_counterexample:
  "snd (analyzeFile example_env ''missing.ts'' no_options) =
     snd (analyzeFile example_env ''err.ts'' no_options)
   \<and> snd (analyzeFile example_env ''missing.ts'' no_options) = None
   \<and> fst (analyzeFile example_env ''missing.ts'' no_options) \<noteq>
       fst (analyzeFile example_env ''err.ts'' no_options)"
  by code_simp



section \<open>The scan command as a whole\<close>

text \<open>
  Claim C5, as stated, asks for a non-zero exit code when the only requested file does
  not exist.  The run below completes, reports no issue, and the exit code is 0.
\<close>

theorem missing_file_exit_code_counterexample:
  "readFileSync example_env ''missing.ts'' =
     Inl ''ENOENT: no such file or directory, open missing.ts''
   \<and> scan example_env [0] (no_options\<lparr>file := Some ''missing.ts''\<rparr>) =
       Completed [''missing.ts''] [None]
         \<lparr>console = [Rule, Title, Rule, TotalLine 0, NoIssues], total = 0\<rparr>
   \<and> exit_code (scan example_env [0] (no_options\<lparr>file := Some ''missing.ts''\<rparr>)) = Some 0"
  by code_simp



text \<open>
  Claim C5 (as amended).  For an explicit single-file scan whose file cannot be read,
  the analysis of that file fails with the cause of the read error, the scan completes
  with the one outcome \<^verbatim>\<open>null\<close>, prints a total of 0 and that no issue was found, and
  the process exits with code 0.
\<close>

theorem missing_file_scan_exits_zero:
  "truthy (file opts) \<Longrightarrow> readFileSync e (the (file opts)) = Inl cause \<Longrightarrow>
   all_settle order 1 \<Longrightarrow>
     analyzeFile e (the (file opts)) opts = failure_report (the (file opts)) cause
   \<and> scan e order opts =
       Completed [the (file opts)] [None]
         \<lparr>console = [Rule, Title, Rule, TotalLine 0, NoIssues], total = 0\<rparr>
   \<and> exit_code (scan e order opts) = Some 0"
proof -
  assume f: "truthy (file opts)" and r: "readFileSync e (the (file opts)) = Inl cause"
    and o: "all_settle order 1"
  have a: "analyzeFile e (the (file opts)) opts = failure_report (the (file opts)) cause"
    using r by (simp add: analyzeFile_cases)
  have files: "scan_files e opts = [the (file opts)]"
    using f by (simp add: scan_files_def)
  have "analyze_all e order opts [the (file opts)] = Some [None]"
    using analyze_all_settled [of order "[the (file opts)]" e opts] o a
    by (simp add: failure_report_def)
  then have run: "scan e order opts =
       Completed [the (file opts)] [None]
         \<lparr>console = [Rule, Title, Rule, TotalLine 0, NoIssues], total = 0\<rparr>"
    using f by (simp add: scan_def files displayResults_def)
  from a run show ?thesis by simp
qed

theorem missing_file_scan_exits_zero_witness:
  "truthy (file (no_options\<lparr>file := Some ''missing.ts''\<rparr>))
   \<and> readFileSync example_env ''missing.ts'' =
       Inl ''ENOENT: no such file or directory, open missing.ts''
   \<and> all_settle [0] 1
   \<and> exit_code (scan example_env [0] (no_options\<lparr>file := Some ''missing.ts''\<rparr>)) = Some 0"
proof -
  let ?opts = "no_options\<lparr>file := Some ''missing.ts''\<rparr>"
  have f: "truthy (file ?opts)" by code_simp
  have r: "readFileSync example_env (the (file ?opts)) =
             Inl ''ENOENT: no such file or directory, open missing.ts''"
    by code_simp
  have o: "all_settle [0] 1" by code_simp
  from missing_file_scan_exits_zero [OF f r o] have "exit_code (scan example_env [0] ?opts) = Some 0"
    by simp
  moreover from r have "readFileSync example_env ''missing.ts'' =
       Inl ''ENOENT: no such file or directory, open missing.ts''"
    by simp
  ultimately show ?thesis using f o by (intro conjI)
qed


text \<open>
  Claim C7.  For a fixed file system and a remote service that answers as a function of
  the request, two runs of the scan command in which all analyses settle, in whatever
  two orders, end in the same state: the same files, the same outcomes in the same order
  and the same report with the same total.
\<close>

theorem scan_independent_of_settling_order:
  "all_settle order1 (length (scan_files e opts)) \<Longrightarrow>
   all_settle order2 (length (scan_files e opts)) \<Longrightarrow>
   scan e order1 opts = scan e order2 opts
   \<and> (\<not> truthy (file opts) \<and> \<not> truthy (directory opts) \<or>
      scan e order1 opts =
        Completed (scan_files e opts)
          (map (\<lambda>file. snd (analyzeFile e file opts)) (scan_files e opts))
          (displayResults (map (\<lambda>file. snd (analyzeFile e file opts)) (scan_files e opts))))"
proof -
  assume o1: "all_settle order1 (length (scan_files e opts))"
    and o2: "all_settle order2 (length (scan_files e opts))"
  let ?results = "map (\<lambda>file. snd (analyzeFile e file opts)) (scan_files e opts)"
  have r1: "analyze_all e order1 opts (scan_files e opts) = Some ?results"
    using o1 by (rule analyze_all_settled)
  have r2: "analyze_all e order2 opts (scan_files e opts) = Some ?results"
    using o2 by (rule analyze_all_settled)
  have "scan e order1 opts = scan e order2 opts"
    by (simp add: scan_def r1 r2)
  moreover have "scan e order1 opts = Completed (scan_files e opts) ?results (displayResults ?results)"
    if "truthy (file opts) \<or> truthy (directory opts)"
    using that by (auto simp add: scan_def r1 Let_def)
  ultimately show ?thesis by blast
qed


theorem scan_independent_of_settling_order_witness:
  "all_settle [1, 0, 2] (length (scan_files example_env (no_options\<lparr>directory := Some ''proj''\<rparr>)))
   \<and> all_settle [2, 1, 0] (length (scan_files example_env (no_options\<lparr>directory := Some ''proj''\<rparr>)))
   \<and> scan example_env [1, 0, 2] (no_options\<lparr>directory := Some ''proj''\<rparr>) =
       scan example_env [2, 1, 0] (no_options\<lparr>directory := Some ''proj''\<rparr>)
   \<and> outcomes (scan example_env [2, 1, 0] (no_options\<lparr>directory := Some ''proj''\<rparr>)) =
       [Some \<lparr>result_file = None, vulnerabilities = Some []\<rparr>,
        Some \<lparr>result_file = None, vulnerabilities = Some [finding]\<rparr>,
        Some \<lparr>result_file = None, vulnerabilities = Some []\<rparr>]
   \<and> total (shown (scan example_env [2, 1, 0] (no_options\<lparr>directory := Some ''proj''\<rparr>))) = 1"
proof -
  let ?opts = "no_options\<lparr>directory := Some ''proj''\<rparr>"
  have h1: "all_settle [1, 0, 2] (length (scan_files example_env ?opts))"
    by code_simp
  have h2: "all_settle [2, 1, 0] (length (scan_files example_env ?opts))"
    by code_simp
  have run: "scan example_env [1, 0, 2] ?opts =
     Completed [''proj/a.ts'', ''proj/b.ts'', ''proj/lib/Util.PY'']
       [Some \<lparr>result_file = None, vulnerabilities = Some []\<rparr>,
        Some \<lparr>result_file = None, vulnerabilities = Some [finding]\<rparr>,
        Some \<lparr>result_file = None, vulnerabilities = Some []\<rparr>]
       \<lparr>console = [Rule, Title, Rule, FileHeading None, Finding ''yellow'' finding,
                   CweLine ''CWE-95'', TotalLine 1, FixWarning],
        total = 1\<rparr>"
    by code_simp
  from scan_independent_of_settling_order [OF h1 h2]
  have same: "scan example_env [1, 0, 2] ?opts = scan example_env [2, 1, 0] ?opts"
    by simp
  from same [symmetric] run
  have run': "scan example_env [2, 1, 0] ?opts =
     Completed [''proj/a.ts'', ''proj/b.ts'', ''proj/lib/Util.PY'']
       [Some \<lparr>result_file = None, vulnerabilities = Some []\<rparr>,
        Some \<lparr>result_file = None, vulnerabilities = Some [finding]\<rparr>,
        Some \<lparr>result_file = None, vulnerabilities = Some []\<rparr>]
       \<lparr>console = [Rule, Title, Rule, FileHeading None, Finding ''yellow'' finding,
                   CweLine ''CWE-95'', TotalLine 1, FixWarning],
        total = 1\<rparr>"
    by (rule trans)
  have o: "outcomes (scan example_env [2, 1, 0] ?opts) =
       [Some \<lparr>result_file = None, vulnerabilities = Some []\<rparr>,
        Some \<lparr>result_file = None, vulnerabilities = Some [finding]\<rparr>,
        Some \<lparr>result_file = None, vulnerabilities = Some []\<rparr>]"
    unfolding run' by simp
  have t: "total (shown (scan example_env [2, 1, 0] ?opts)) = 1"
    unfolding run' by simp
  from h1 h2 same o t show ?thesis
    by (intro conjI)
qed


text \<open>
  Claim C8.  When the response is a success and its body is an object without the field
  \<^verbatim>\<open>vulnerabilities\<close>, \<^verbatim>\<open>analyzeFile\<close> reports a success and returns the body, not
  the failure value; the outcome adds 0 to the total, the report is the same as without
  it, and alone it gives the report of a scan without issues.
\<close>

theorem body_without_vulnerabilities:
  "readFileSync e filePath = Inr text \<Longrightarrow> scan_fetch e text opts = Inr resp \<Longrightarrow> ok resp \<Longrightarrow>
   json resp = Inr (Some result) \<Longrightarrow> vulnerabilities result = None \<Longrightarrow>
     analyzeFile e filePath opts = success_report filePath (Some result)
   \<and> contribution (Some result) = 0
   \<and> displayResults (before @ Some result # after) = displayResults (before @ after)
   \<and> displayResults [Some result] =
       \<lparr>console = [Rule, Title, Rule, TotalLine 0, NoIssues], total = 0\<rparr>"
proof -
  assume r: "readFileSync e filePath = Inr text" "scan_fetch e text opts = Inr resp" "ok resp"
    "json resp = Inr (Some result)" and v: "vulnerabilities result = None"
  have a: "analyzeFile e filePath opts = success_report filePath (Some result)"
    using r by (simp add: analyzeFile_cases)
  have c: "contribution (Some result) = 0"
    using v by (simp add: contribution_def vulns_of_def)
  have d: "displayResults [Some result] =
       \<lparr>console = [Rule, Title, Rule, TotalLine 0, NoIssues], total = 0\<rparr>"
    using v by (simp add: displayResults_def vulns_of_def)
  from a c displayResults_skip [OF c] d show ?thesis by simp
qed

theorem body_without_vulnerabilities_witness:
  "readFileSync example_env ''bare.ts'' = Inr ''bare''
   \<and> analyzeFile example_env ''bare.ts'' no_options =
       success_report ''bare.ts'' (Some \<lparr>result_file = None, vulnerabilities = None\<rparr>)
   \<and> displayResults [None, Some \<lparr>result_file = None, vulnerabilities = None\<rparr>] =
       displayResults [None]"
proof -
  let ?resp = "\<lparr>ok = True, statusText = ''OK'',
                 json = Inr (Some \<lparr>result_file = None, vulnerabilities = None\<rparr>)\<rparr>"
  have r: "readFileSync example_env ''bare.ts'' = Inr ''bare''"
    by code_simp
  have f: "scan_fetch example_env ''bare'' no_options = Inr ?resp"
    by code_simp
  from body_without_vulnerabilities [OF r f, of "\<lparr>result_file = None, vulnerabilities = None\<rparr>" "[None]" "[]"] r
  show ?thesis by simp
qed


text \<open>
  Claim C9.  When both the file option and the directory option are given (as non-empty
  strings, which is what the command tests), the files to scan are the single file: the
  run does not depend on what the file system holds at any directory, and once the
  analysis has settled the scanned files and the outcomes are those of the one file.
\<close>

theorem file_option_bypasses_directory:
  "truthy (file opts) \<Longrightarrow> truthy (directory opts) \<Longrightarrow>
     scan_files e opts = [the (file opts)]
   \<and> scan (e\<lparr>fs_at := other\<rparr>) order opts = scan e order opts
   \<and> (all_settle order 1 \<longrightarrow>
        scanned (scan e order opts) = [the (file opts)]
      \<and> outcomes (scan e order opts) = [snd (analyzeFile e (the (file opts)) opts)])"
proof -
  assume f: "truthy (file opts)" and d: "truthy (directory opts)"
  have files: "scan_files e' opts = [the (file opts)]" for e'
    using f by (simp add: scan_files_def)
  have same: "scan (e\<lparr>fs_at := other\<rparr>) order opts = scan e order opts"
    by (simp add: scan_def files analyze_all_def analyzeFile_fs_at)
  have "scan e order opts =
          Completed [the (file opts)] [snd (analyzeFile e (the (file opts)) opts)]
            (displayResults [snd (analyzeFile e (the (file opts)) opts)])"
    if "all_settle order 1"
    using that f analyze_all_settled [of order "[the (file opts)]" e opts]
    by (simp add: scan_def files)
  with files same show ?thesis by simp
qed

theorem file_option_bypasses_directory_witness:
  "truthy (file (no_options\<lparr>file := Some ''proj/b.ts'', directory := Some ''proj''\<rparr>))
   \<and> truthy (directory (no_options\<lparr>file := Some ''proj/b.ts'', directory := Some ''proj''\<rparr>))
   \<and> scan_files example_env (no_options\<lparr>file := Some ''proj/b.ts'', directory := Some ''proj''\<rparr>) =
       [''proj/b.ts'']"
proof -
  let ?opts = "no_options\<lparr>file := Some ''proj/b.ts'', directory := Some ''proj''\<rparr>"
  have f: "truthy (file ?opts)" by code_simp
  have d: "truthy (directory ?opts)" by code_simp
  have "the (file ?opts) = ''proj/b.ts''" by code_simp
  with file_option_bypasses_directory [OF f d, of example_env] f d show ?thesis by simp
qed




section \<open>The extension list\<close>











end
